theory Spec2Isabelle
  imports Main
begin

unbundle bit_operations_syntax

section \<open>Host values\<close>

text \<open>
  The registry is JavaScript. Its integers come in two host representations: a
  \<^verbatim>\<open>number\<close> (a double; only the integer-valued ones matter here) and a
  \<^verbatim>\<open>bigint\<close>. \<open>Number n\<close> is the double whose value is the integer \<open>n\<close>,
  \<open>BigInt n\<close> the arbitrary-precision integer \<open>n\<close>. Strict equality \<^verbatim>\<open>===\<close>
  never identifies a number with a bigint, and compares two bigints by value: it is the
  equality of this datatype.
\<close>

datatype numeric = Number int | BigInt int

text \<open>
  What a caller may hand to the constructor: an integer in either representation, a
  number that is not an integer (a fraction, NaN or an infinity), or a string.
\<close>

datatype jsvalue = Numeric numeric | NonInteger | Str string

text \<open>The exceptions the code and the host raise.\<close>

datatype error = RangeError | SyntaxError | Error

subsection \<open>Strings and arbitrary-precision integers\<close>

text \<open>
  \<^verbatim>\<open>BigInt.prototype.toString()\<close>: the decimal digits, most significant first, after a
  minus sign for a negative value.
\<close>

definition digit_char :: "nat \<Rightarrow> char" where
  "digit_char d = ''0123456789'' ! d"

fun decimal_digits :: "nat \<Rightarrow> string" where
  "decimal_digits n =
     (if n < 10 then [digit_char n]
      else decimal_digits (n div 10) @ [digit_char (n mod 10)])"

declare decimal_digits.simps [simp del]

definition toString :: "int \<Rightarrow> string" where
  "toString b = (if b < 0 then CHR ''-'' # decimal_digits (nat (- b)) else decimal_digits (nat b))"

text \<open>
  \<^verbatim>\<open>BigInt(string)\<close> parses the host's StringIntegerLiteral grammar: white space
  is trimmed, the empty string is zero, a decimal literal may carry a sign, and an unsigned
  literal may be binary, octal or hexadecimal after the prefixes 0b, 0o and 0x. Anything
  else is a SyntaxError.
\<close>

definition StrWhiteSpaceChar :: "char \<Rightarrow> bool" where
  "StrWhiteSpaceChar c \<longleftrightarrow> (of_char c :: nat) \<in> {9, 10, 11, 12, 13, 32, 160}"

definition trim :: "string \<Rightarrow> string" where
  "trim s = rev (dropWhile StrWhiteSpaceChar (rev (dropWhile StrWhiteSpaceChar s)))"

definition digit_value :: "char \<Rightarrow> nat option" where
  "digit_value c =
     (let k = (of_char c :: nat) in
      if 48 \<le> k \<and> k \<le> 57 then Some (k - 48)
      else if 97 \<le> k \<and> k \<le> 102 then Some (k - 87)
      else if 65 \<le> k \<and> k \<le> 70 then Some (k - 55)
      else None)"

fun digits_value :: "nat \<Rightarrow> nat \<Rightarrow> string \<Rightarrow> nat option" where
  "digits_value radix acc [] = Some acc"
| "digits_value radix acc (c # cs) =
     (case digit_value c of
        None \<Rightarrow> None
      | Some d \<Rightarrow> if d < radix then digits_value radix (acc * radix + d) cs else None)"

definition literal_value :: "nat \<Rightarrow> string \<Rightarrow> int option" where
  "literal_value radix s = (if s = [] then None else map_option int (digits_value radix 0 s))"

definition StringToBigInt :: "string \<Rightarrow> int option" where
  "StringToBigInt str =
     (let s = trim str in
      if s = [] then Some 0
      else if take 2 s \<in> {''0b'', ''0B''} then literal_value 2 (drop 2 s)
      else if take 2 s \<in> {''0o'', ''0O''} then literal_value 8 (drop 2 s)
      else if take 2 s \<in> {''0x'', ''0X''} then literal_value 16 (drop 2 s)
      else if hd s = CHR ''+'' then literal_value 10 (tl s)
      else if hd s = CHR ''-'' then map_option uminus (literal_value 10 (tl s))
      else literal_value 10 s)"

text \<open>\<^verbatim>\<open>BigInt(value)\<close>, the conversion the constructor calls.\<close>

fun ToBigInt :: "jsvalue \<Rightarrow> error + int" where
  "ToBigInt (Numeric (Number n)) = Inr n"
| "ToBigInt (Numeric (BigInt b)) = Inr b"
| "ToBigInt NonInteger = Inl RangeError"
| "ToBigInt (Str s) = (case StringToBigInt s of None \<Rightarrow> Inl SyntaxError | Some b \<Rightarrow> Inr b)"

subsection \<open>From an arbitrary-precision integer to a number\<close>

text \<open>
  \<^verbatim>\<open>Number(bigint)\<close> is the double nearest to the integer, ties to the even
  significand: a magnitude of at most 53 bits is kept, a longer one is rounded at its
  53rd bit, and a magnitude that rounds to \<open>2 ^ 1024\<close> or more becomes an infinity.
\<close>

fun bitlen :: "nat \<Rightarrow> nat" where
  "bitlen n = (if n = 0 then 0 else Suc (bitlen (n div 2)))"

declare bitlen.simps [simp del]

definition roundTiesToEven :: "nat \<Rightarrow> nat" where
  "roundTiesToEven m =
     (if bitlen m \<le> 53 then m
      else
        let e = bitlen m - 53; q = m div 2 ^ e; r = m mod 2 ^ e; half = 2 ^ (e - 1)
        in (if r < half \<or> (r = half \<and> even q) then q else q + 1) * 2 ^ e)"

definition ToNumber :: "int \<Rightarrow> jsvalue" where
  "ToNumber b =
     (let m = roundTiesToEven (nat \<bar>b\<bar>)
      in if 2 ^ 1024 \<le> m then NonInteger
         else Numeric (Number (if b < 0 then - int m else int m)))"

definition MAX_SAFE_INTEGER :: int where
  "MAX_SAFE_INTEGER = 2 ^ 53 - 1"

section \<open>KnownValue\<close>

text \<open>
  The class has two fields, \<^verbatim>\<open>_value\<close> (always a bigint) and
  \<^verbatim>\<open>_assignedName\<close> (a string, or undefined: \<open>None\<close>).
\<close>

record KnownValue =
  raw_value :: int
  assigned_name :: "string option"

text \<open>
  The constructor: \<^verbatim>\<open>typeof value === 'bigint' ? value : BigInt(value)\<close>. It
  raises what the conversion raises and checks nothing else.
\<close>

fun KnownValue_new :: "jsvalue \<Rightarrow> string option \<Rightarrow> error + KnownValue" where
  "KnownValue_new (Numeric (BigInt b)) assignedName =
     Inr \<lparr>raw_value = b, assigned_name = assignedName\<rparr>"
| "KnownValue_new v assignedName =
     (case ToBigInt v of
        Inl e \<Rightarrow> Inl e
      | Inr b \<Rightarrow> Inr \<lparr>raw_value = b, assigned_name = assignedName\<rparr>)"

text \<open>The method \<^verbatim>\<open>value()\<close>, under a name that Isabelle does not reserve.\<close>

definition value_of :: "KnownValue \<Rightarrow> error + jsvalue" where
  "value_of this =
     (if raw_value this > MAX_SAFE_INTEGER then Inl RangeError
      else Inr (ToNumber (raw_value this)))"

definition valueBigInt :: "KnownValue \<Rightarrow> int" where
  "valueBigInt this = raw_value this"

definition assignedName :: "KnownValue \<Rightarrow> string option" where
  "assignedName this = assigned_name this"

text \<open>\<^verbatim>\<open>this._assignedName ?? this._value.toString()\<close>: only undefined falls through.\<close>

definition name :: "KnownValue \<Rightarrow> string" where
  "name this = (case assigned_name this of None \<Rightarrow> toString (raw_value this) | Some n \<Rightarrow> n)"

definition equals :: "KnownValue \<Rightarrow> KnownValue \<Rightarrow> bool" where
  "equals this other \<longleftrightarrow> raw_value this = raw_value other"

text \<open>\<^verbatim>\<open>Number(this._value & BigInt(0xffffffff))\<close>; on a negative bigint the
  conjunction is that of the infinite two's complement, as \<open>AND\<close> on \<open>int\<close> is.\<close>

definition hashCode :: "KnownValue \<Rightarrow> jsvalue" where
  "hashCode this = ToNumber (raw_value this AND 4294967295)"

text \<open>The constants of the module are built by the constructor; the first of them is
  \<^verbatim>\<open>UNIT = new KnownValue(0, '')\<close>.\<close>

definition UNIT :: "error + KnownValue" where
  "UNIT = KnownValue_new (Numeric (Number 0)) (Some [])"

section \<open>The binary codec\<close>

text \<open>
  Modelled from the spec: the decoded-value type of the external codec
  \<^verbatim>\<open>@bcts/dcbor\<close>, whose declaration is not in the repository. The code probes the
  fields \<^verbatim>\<open>.type\<close>, \<^verbatim>\<open>.tag\<close> and \<^verbatim>\<open>.value\<close> of a decoded item; the
  spec describes it as a tagged union with one case per major type, among them "unsigned
  integer with payload" and "tagged value with numeric tag and inner payload", a numeric
  tag or payload being a native or an arbitrary-precision integer.
\<close>

datatype MajorType = Unsigned | Negative | ByteString | Text | Array | Map | Tagged | Simple

datatype Cbor =
    CborUnsigned numeric
  | CborNegative numeric
  | CborByteString "nat list"
  | CborText string
  | CborArray "Cbor list"
  | CborMap "(Cbor \<times> Cbor) list"
  | CborTagged numeric Cbor
  | CborSimple nat

fun type :: "Cbor \<Rightarrow> MajorType" where
  "type (CborUnsigned _) = Unsigned"
| "type (CborNegative _) = Negative"
| "type (CborByteString _) = ByteString"
| "type (CborText _) = Text"
| "type (CborArray _) = Array"
| "type (CborMap _) = Map"
| "type (CborTagged _ _) = Tagged"
| "type (CborSimple _) = Simple"

text \<open>
  Modelled from the spec: the generic encoder \<^verbatim>\<open>cbor\<close> of the same external codec,
  on the two shapes the code passes to it. A bigint becomes "one CBOR unsigned-integer
  item equal to the raw value" (a negative one, which the spec does not consider, an item
  of the negative major type holding \<open>-1 - v\<close>, as CBOR defines it), and an object with
  a tag and a value becomes "one CBOR tag item wrapping" the item of the value.
\<close>

definition cbor_bigint :: "int \<Rightarrow> Cbor" where
  "cbor_bigint v = (if 0 \<le> v then CborUnsigned (BigInt v) else CborNegative (BigInt (- 1 - v)))"

definition cbor_tagged :: "numeric \<Rightarrow> int \<Rightarrow> Cbor" where
  "cbor_tagged tag v = CborTagged tag (cbor_bigint v)"

text \<open>
  Modelled from the spec: what \<^verbatim>\<open>decodeCbor\<close> returns on the bytes
  \<^verbatim>\<open>cborData\<close> wrote for an item. The bytes themselves belong to the external codec;
  the spec fixes only that the decoded item has the same shape and the same integers, each
  in the native or in the arbitrary-precision representation. The decoder's choice is the
  parameter \<open>native\<close>.
\<close>

definition redecode_numeric :: "(int \<Rightarrow> bool) \<Rightarrow> numeric \<Rightarrow> numeric" where
  "redecode_numeric native x =
     (let n = (case x of Number n \<Rightarrow> n | BigInt n \<Rightarrow> n)
      in if native n then Number n else BigInt n)"

fun redecode :: "(int \<Rightarrow> bool) \<Rightarrow> Cbor \<Rightarrow> Cbor" where
  "redecode native (CborUnsigned x) = CborUnsigned (redecode_numeric native x)"
| "redecode native (CborNegative x) = CborNegative (redecode_numeric native x)"
| "redecode native (CborByteString bs) = CborByteString bs"
| "redecode native (CborText s) = CborText s"
| "redecode native (CborArray xs) = CborArray (map (redecode native) xs)"
| "redecode native (CborMap kvs) =
     CborMap (map (\<lambda>(k, v). (redecode native k, redecode native v)) kvs)"
| "redecode native (CborTagged t x) = CborTagged (redecode_numeric native t) (redecode native x)"
| "redecode native (CborSimple n) = CborSimple n"

text \<open>
  The reserved tag \<^verbatim>\<open>TAG_KNOWN_VALUE\<close> is imported from
  \<^verbatim>\<open>@bcts/components\<close>, so it is a parameter here: the native integer \<open>TAG\<close>, which
  the code converts with \<^verbatim>\<open>BigInt(TAG_KNOWN_VALUE)\<close> to compare it with a tag in
  the other representation.
\<close>

definition untaggedCbor :: "KnownValue \<Rightarrow> Cbor" where
  "untaggedCbor this = cbor_bigint (raw_value this)"

definition taggedCbor :: "int \<Rightarrow> KnownValue \<Rightarrow> Cbor" where
  "taggedCbor TAG this = cbor_tagged (Number TAG) (raw_value this)"

fun fromUntaggedCbor :: "Cbor \<Rightarrow> error + KnownValue" where
  "fromUntaggedCbor (CborUnsigned numValue) =
     (case numValue of
        BigInt b \<Rightarrow> KnownValue_new (Numeric (BigInt b)) None
      | Number n \<Rightarrow>
          (case ToBigInt (Numeric (Number n)) of
             Inl e \<Rightarrow> Inl e
           | Inr b \<Rightarrow> KnownValue_new (Numeric (BigInt b)) None))"
| "fromUntaggedCbor cborValue = Inl Error"

text \<open>
  The first equation is the item whose \<^verbatim>\<open>.type\<close> is \<^verbatim>\<open>MajorType.Unsigned\<close>; every
  other major type raises. \<^verbatim>\<open>fromTaggedCbor\<close> below is read the same way.
\<close>

fun fromTaggedCbor :: "int \<Rightarrow> Cbor \<Rightarrow> error + KnownValue" where
  "fromTaggedCbor TAG (CborTagged tag inner) =
     (if tag \<noteq> BigInt TAG \<and> tag \<noteq> Number TAG then Inl Error
      else fromUntaggedCbor inner)"
| "fromTaggedCbor TAG cborValue = Inl Error"

definition fromCbor :: "int \<Rightarrow> Cbor \<Rightarrow> error + KnownValue" where
  "fromCbor TAG cborValue =
     (if type cborValue = Tagged then fromTaggedCbor TAG cborValue
      else fromUntaggedCbor cborValue)"

section \<open>KnownValuesStore\<close>

subsection \<open>The heap of Map objects\<close>

text \<open>
  A store holds references to two mutable \<^verbatim>\<open>Map\<close> objects, and
  \<^verbatim>\<open>clone\<close> is about which objects two stores share. So the maps live in a heap: a
  list of maps, a reference being an index into it. A \<^verbatim>\<open>Map\<close> compares bigint
  keys by value and string keys by content, so a key is one of the two; the values are
  \<^verbatim>\<open>KnownValue\<close> objects, which nothing ever mutates.
\<close>

datatype mapkey = BigKey int | StrKey string

type_synonym jsmap = "mapkey \<rightharpoonup> KnownValue"

type_synonym ref = nat

type_synonym heap = "jsmap list"

text \<open>\<^verbatim>\<open>new Map(entries)\<close>: a fresh object, after every object there is.\<close>

definition Map_new :: "jsmap \<Rightarrow> heap \<Rightarrow> ref \<times> heap" where
  "Map_new entries h = (length h, h @ [entries])"

definition Map_get :: "ref \<Rightarrow> mapkey \<Rightarrow> heap \<Rightarrow> KnownValue option" where
  "Map_get r k h = (h ! r) k"

definition Map_set :: "ref \<Rightarrow> mapkey \<Rightarrow> KnownValue \<Rightarrow> heap \<Rightarrow> heap" where
  "Map_set r k v h = h[r := (h ! r)(k \<mapsto> v)]"

definition Map_delete :: "ref \<Rightarrow> mapkey \<Rightarrow> heap \<Rightarrow> heap" where
  "Map_delete r k h = h[r := (h ! r)(k := None)]"

subsection \<open>The store\<close>

record KnownValuesStore =
  knownValuesByRawValue :: ref
  knownValuesByAssignedName :: ref

text \<open>
  A store is well formed in a heap when its two references are different objects of the
  heap. The constructor and \<^verbatim>\<open>clone\<close> make no other store.
\<close>

definition store_ok :: "KnownValuesStore \<Rightarrow> heap \<Rightarrow> bool" where
  "store_ok this h \<longleftrightarrow>
     knownValuesByRawValue this < length h \<and>
     knownValuesByAssignedName this < length h \<and>
     knownValuesByRawValue this \<noteq> knownValuesByAssignedName this"

text \<open>The method \<^verbatim>\<open>_insert\<close>.\<close>

definition insert_internal :: "KnownValuesStore \<Rightarrow> KnownValue \<Rightarrow> heap \<Rightarrow> heap" where
  "insert_internal this knownValue h =
     (let existing = Map_get (knownValuesByRawValue this) (BigKey (valueBigInt knownValue)) h;
          h1 = (case existing of
                  None \<Rightarrow> h
                | Some e \<Rightarrow>
                    (case assignedName e of
                       None \<Rightarrow> h
                     | Some oldName \<Rightarrow>
                         if oldName \<noteq> [] then
                           Map_delete (knownValuesByAssignedName this) (StrKey oldName) h
                         else h));
          h2 = Map_set (knownValuesByRawValue this) (BigKey (valueBigInt knownValue)) knownValue h1
      in case assignedName knownValue of
           None \<Rightarrow> h2
         | Some n \<Rightarrow>
             if n \<noteq> [] then Map_set (knownValuesByAssignedName this) (StrKey n) knownValue h2
             else h2)"

text \<open>The public method \<^verbatim>\<open>insert\<close>.\<close>

definition insert_store :: "KnownValuesStore \<Rightarrow> KnownValue \<Rightarrow> heap \<Rightarrow> heap" where
  "insert_store this knownValue h = insert_internal this knownValue h"

text \<open>A sequence of \<^verbatim>\<open>insert\<close> calls on one store, in order.\<close>

definition insert_all :: "KnownValuesStore \<Rightarrow> KnownValue list \<Rightarrow> heap \<Rightarrow> heap" where
  "insert_all this knownValues h = foldl (\<lambda>h' kv. insert_store this kv h') h knownValues"

text \<open>The constructor: two fresh maps, then \<^verbatim>\<open>_insert\<close> for each seed in order.\<close>

definition KnownValuesStore_new :: "KnownValue list \<Rightarrow> heap \<Rightarrow> KnownValuesStore \<times> heap" where
  "KnownValuesStore_new knownValues h =
     (let (r1, h1) = Map_new Map.empty h;
          (r2, h2) = Map_new Map.empty h1;
          this = \<lparr>knownValuesByRawValue = r1, knownValuesByAssignedName = r2\<rparr>
      in (this, foldl (\<lambda>h' kv. insert_internal this kv h') h2 knownValues))"

text \<open>
  The store's own \<^verbatim>\<open>assignedName\<close> and \<^verbatim>\<open>name\<close>, prefixed to tell them from the
  methods of \<^verbatim>\<open>KnownValue\<close>.
\<close>

definition store_assignedName :: "KnownValuesStore \<Rightarrow> KnownValue \<Rightarrow> heap \<Rightarrow> string option" where
  "store_assignedName this knownValue h =
     (case Map_get (knownValuesByRawValue this) (BigKey (valueBigInt knownValue)) h of
        None \<Rightarrow> None
      | Some kv \<Rightarrow> assignedName kv)"

definition store_name :: "KnownValuesStore \<Rightarrow> KnownValue \<Rightarrow> heap \<Rightarrow> string" where
  "store_name this knownValue h =
     (case store_assignedName this knownValue h of None \<Rightarrow> name knownValue | Some n \<Rightarrow> n)"

definition knownValueNamed :: "KnownValuesStore \<Rightarrow> string \<Rightarrow> heap \<Rightarrow> KnownValue option" where
  "knownValueNamed this n h = Map_get (knownValuesByAssignedName this) (StrKey n) h"

text \<open>
  \<^verbatim>\<open>knownValueForValue\<close> converts a raw value that is not a bigint with
  \<^verbatim>\<open>BigInt(rawValue)\<close>, and raises what that raises.
\<close>

fun knownValueForValue ::
  "KnownValuesStore \<Rightarrow> jsvalue \<Rightarrow> heap \<Rightarrow> error + KnownValue option" where
  "knownValueForValue this (Numeric (BigInt b)) h =
     Inr (Map_get (knownValuesByRawValue this) (BigKey b) h)"
| "knownValueForValue this rawValue h =
     (case ToBigInt rawValue of
        Inl e \<Rightarrow> Inl e
      | Inr key \<Rightarrow> Inr (Map_get (knownValuesByRawValue this) (BigKey key) h))"

text \<open>
  \<^verbatim>\<open>clone\<close>: a new store (whose constructor allocates two empty maps), then each
  field is replaced by a fresh copy of the corresponding map of \<open>this\<close>.
\<close>

definition clone :: "KnownValuesStore \<Rightarrow> heap \<Rightarrow> KnownValuesStore \<times> heap" where
  "clone this h =
     (let (cloned, h1) = KnownValuesStore_new [] h;
          (r1, h2) = Map_new (h1 ! knownValuesByRawValue this) h1;
          cloned1 = cloned\<lparr>knownValuesByRawValue := r1\<rparr>;
          (r2, h3) = Map_new (h2 ! knownValuesByAssignedName this) h2;
          cloned2 = cloned1\<lparr>knownValuesByAssignedName := r2\<rparr>
      in (cloned2, h3))"

subsection \<open>Notions used to state the properties\<close>

text \<open>
  What \<^verbatim>\<open>_insert\<close> leaves in the name map, written on the two maps themselves: first
  the name of the entry it replaces is removed, when that name is a non-empty string, then
  the new name is installed, when it is a non-empty string.
\<close>

definition names_after_removal :: "jsmap \<Rightarrow> jsmap \<Rightarrow> int \<Rightarrow> jsmap" where
  "names_after_removal byValue byName raw =
     (case byValue (BigKey raw) of
        None \<Rightarrow> byName
      | Some e \<Rightarrow>
          (case assigned_name e of
             None \<Rightarrow> byName
           | Some oldName \<Rightarrow> if oldName \<noteq> [] then byName(StrKey oldName := None) else byName))"

definition names_after_insert :: "jsmap \<Rightarrow> jsmap \<Rightarrow> KnownValue \<Rightarrow> jsmap" where
  "names_after_insert byValue byName kv =
     (let m = names_after_removal byValue byName (raw_value kv)
      in case assigned_name kv of
           None \<Rightarrow> m
         | Some n \<Rightarrow> if n \<noteq> [] then m(StrKey n \<mapsto> kv) else m)"

text \<open>
  The invariant of a store: every entry of the name map is filed under the name its value
  carries, that name is not empty, and the value map holds the same value under its raw
  value.
\<close>

definition store_inv :: "KnownValuesStore \<Rightarrow> heap \<Rightarrow> bool" where
  "store_inv this h \<longleftrightarrow>
     (\<forall>n kv. knownValueNamed this n h = Some kv \<longrightarrow>
        assignedName kv = Some n \<and> n \<noteq> [] \<and>
        Map_get (knownValuesByRawValue this) (BigKey (valueBigInt kv)) h = Some kv)"

text \<open>Two stores that share no map object.\<close>

definition disjoint_stores :: "KnownValuesStore \<Rightarrow> KnownValuesStore \<Rightarrow> bool" where
  "disjoint_stores s t \<longleftrightarrow>
     knownValuesByRawValue s \<noteq> knownValuesByRawValue t \<and>
     knownValuesByRawValue s \<noteq> knownValuesByAssignedName t \<and>
     knownValuesByAssignedName s \<noteq> knownValuesByRawValue t \<and>
     knownValuesByAssignedName s \<noteq> knownValuesByAssignedName t"

section \<open>Facts about the host conversions\<close>

subsection \<open>A decimal string parses back to its integer\<close>

lemma digit_char_in: "d < 10 \<Longrightarrow> digit_char d \<in> set ''0123456789''"
  unfolding digit_char_def by (rule nth_mem) simp

lemma digit_value_digit_char: "d < 10 \<Longrightarrow> digit_value (digit_char d) = Some d"
proof -
  assume "d < 10"
  then have "d \<in> {0,1,2,3,4,5,6,7,8,9}" by auto
  then show ?thesis
    by (auto simp: digit_char_def digit_value_def)
qed

lemma digits_value_snoc:
  "digits_value r acc (xs @ [c]) =
     (case digits_value r acc xs of
        None \<Rightarrow> None
      | Some a \<Rightarrow> (case digit_value c of None \<Rightarrow> None | Some d \<Rightarrow> if d < r then Some (a * r + d) else None))"
  by (induction xs arbitrary: acc) (auto split: option.splits)

lemma digits_value_decimal_digits: "digits_value 10 0 (decimal_digits n) = Some n"
proof (induction n rule: decimal_digits.induct)
  case (1 n)
  show ?case
  proof (cases "n < 10")
    case True
    then show ?thesis
      by (subst decimal_digits.simps) (simp add: digit_value_digit_char)
  next
    case False
    have d: "digit_value (digit_char (n mod 10)) = Some (n mod 10)"
      by (rule digit_value_digit_char) simp
    from False 1 have "digits_value 10 0 (decimal_digits (n div 10)) = Some (n div 10)" by simp
    with False d show ?thesis
      by (subst decimal_digits.simps) (simp add: digits_value_snoc)
  qed
qed

lemma decimal_digits_chars: "set (decimal_digits n) \<subseteq> set ''0123456789''"
proof (induction n rule: decimal_digits.induct)
  case (1 n)
  show ?case
  proof (cases "n < 10")
    case True
    with digit_char_in [of n] show ?thesis
      by (subst decimal_digits.simps) simp
  next
    case False
    have "digit_char (n mod 10) \<in> set ''0123456789''" by (rule digit_char_in) simp
    with False 1 show ?thesis
      by (subst decimal_digits.simps) simp
  qed
qed

lemma decimal_digits_not_Nil: "decimal_digits n \<noteq> []"
  by (subst decimal_digits.simps) simp

lemma trim_id:
  assumes "s \<noteq> []" "\<not> StrWhiteSpaceChar (hd s)" "\<not> StrWhiteSpaceChar (last s)"
  shows "trim s = s"
proof -
  from assms(1,2) have a: "dropWhile StrWhiteSpaceChar s = s" by (cases s) auto
  from assms(1) have r: "rev s = last s # rev (butlast s)"
    by (metis append_butlast_last_id rev.simps(2) rev_swap)
  have "dropWhile StrWhiteSpaceChar (last s # rev (butlast s)) = last s # rev (butlast s)"
    using assms(3) by simp
  then have "dropWhile StrWhiteSpaceChar (rev s) = rev s" by (simp only: r)
  with a show ?thesis by (simp add: trim_def)
qed

lemma digit_not_ws: "c \<in> set ''0123456789'' \<Longrightarrow> \<not> StrWhiteSpaceChar c"
  by (auto simp: StrWhiteSpaceChar_def)

lemma trim_decimal_digits: "trim (decimal_digits n) = decimal_digits n"
proof (rule trim_id)
  show ne: "decimal_digits n \<noteq> []" by (rule decimal_digits_not_Nil)
  from ne have "hd (decimal_digits n) \<in> set (decimal_digits n)" by simp
  with decimal_digits_chars have "hd (decimal_digits n) \<in> set ''0123456789''" by blast
  then show "\<not> StrWhiteSpaceChar (hd (decimal_digits n))" by (rule digit_not_ws)
  from ne have "last (decimal_digits n) \<in> set (decimal_digits n)" by simp
  with decimal_digits_chars have "last (decimal_digits n) \<in> set ''0123456789''" by blast
  then show "\<not> StrWhiteSpaceChar (last (decimal_digits n))" by (rule digit_not_ws)
qed

lemma digits_subset: "set ''0123456789'' \<subseteq> set ''-0123456789''"
  by simp

lemma no_prefix:
  assumes "set s \<subseteq> set ''-0123456789''"
  shows "take 2 s \<notin> {''0b'', ''0B'', ''0o'', ''0O'', ''0x'', ''0X''}"
proof
  assume a: "take 2 s \<in> {''0b'', ''0B'', ''0o'', ''0O'', ''0x'', ''0X''}"
  have "set (take 2 s) \<subseteq> set s" by (rule set_take_subset)
  with assms have "set (take 2 s) \<subseteq> set ''-0123456789''" by blast
  with a show False by auto
qed

lemma StringToBigInt_nonneg: "StringToBigInt (decimal_digits n) = Some (int n)"
proof -
  let ?s = "decimal_digits n"
  have ne: "?s \<noteq> []" by (rule decimal_digits_not_Nil)
  have ch: "set ?s \<subseteq> set ''0123456789''" by (rule decimal_digits_chars)
  then have "set ?s \<subseteq> set ''-0123456789''" using digits_subset by (rule order_trans)
  then have np: "take 2 ?s \<notin> {''0b'', ''0B'', ''0o'', ''0O'', ''0x'', ''0X''}" by (rule no_prefix)
  from ne have "hd ?s \<in> set ?s" by simp
  with ch have "hd ?s \<in> set ''0123456789''" by blast
  then have hd: "hd ?s \<noteq> CHR ''+''" "hd ?s \<noteq> CHR ''-''" by auto
  have lv: "literal_value 10 ?s = Some (int n)"
    using ne by (simp add: literal_value_def digits_value_decimal_digits)
  from np have np': "take 2 ?s \<noteq> ''0b''" "take 2 ?s \<noteq> ''0B''" "take 2 ?s \<noteq> ''0o''"
    "take 2 ?s \<noteq> ''0O''" "take 2 ?s \<noteq> ''0x''" "take 2 ?s \<noteq> ''0X''" by simp_all
  show ?thesis
    unfolding StringToBigInt_def trim_decimal_digits Let_def
    using ne np' hd lv by simp
qed

lemma StringToBigInt_neg: "StringToBigInt (CHR ''-'' # decimal_digits n) = Some (- int n)"
proof -
  let ?d = "decimal_digits n"
  let ?s = "CHR ''-'' # ?d"
  have ne: "?d \<noteq> []" by (rule decimal_digits_not_Nil)
  have ch: "set ?d \<subseteq> set ''0123456789''" by (rule decimal_digits_chars)
  then have "set ?d \<subseteq> set ''-0123456789''" using digits_subset by (rule order_trans)
  then have "set ?s \<subseteq> set ''-0123456789''" by simp
  then have np: "take 2 ?s \<notin> {''0b'', ''0B'', ''0o'', ''0O'', ''0x'', ''0X''}" by (rule no_prefix)
  from ne have "last ?d \<in> set ?d" by simp
  with ch have "last ?d \<in> set ''0123456789''" by blast
  then have "\<not> StrWhiteSpaceChar (last ?d)" by (rule digit_not_ws)
  with ne have l: "\<not> StrWhiteSpaceChar (last ?s)" by simp
  have h: "\<not> StrWhiteSpaceChar (hd ?s)" by (simp add: StrWhiteSpaceChar_def)
  have tr: "trim ?s = ?s" using _ h l by (rule trim_id) simp
  have lv: "literal_value 10 ?d = Some (int n)"
    using ne by (simp add: literal_value_def digits_value_decimal_digits)
  from np have np': "take 2 ?s \<noteq> ''0b''" "take 2 ?s \<noteq> ''0B''" "take 2 ?s \<noteq> ''0o''"
    "take 2 ?s \<noteq> ''0O''" "take 2 ?s \<noteq> ''0x''" "take 2 ?s \<noteq> ''0X''" by simp_all
  show ?thesis
    unfolding StringToBigInt_def tr Let_def
    using np' lv by simp
qed

lemma StringToBigInt_toString: "StringToBigInt (toString b) = Some b"
  by (simp add: toString_def StringToBigInt_nonneg StringToBigInt_neg)

subsection \<open>Integers of at most 53 bits are exact numbers\<close>

lemma bitlen_le: "n < 2 ^ k \<Longrightarrow> bitlen n \<le> k"
proof (induction k arbitrary: n)
  case 0 then show ?case by (simp add: bitlen.simps)
next
  case (Suc k)
  show ?case
  proof (cases "n = 0")
    case True then show ?thesis by (simp add: bitlen.simps)
  next
    case False
    from Suc.prems have "n div 2 < 2 ^ k" by simp
    then have "bitlen (n div 2) \<le> k" by (rule Suc.IH)
    with False show ?thesis by (subst bitlen.simps) simp
  qed
qed

lemma ToNumber_exact: "\<bar>b\<bar> < 2 ^ 53 \<Longrightarrow> ToNumber b = Numeric (Number b)"
proof -
  assume a: "\<bar>b\<bar> < 2 ^ 53"
  then have n: "nat \<bar>b\<bar> < 2 ^ 53" by (simp add: nat_less_iff)
  then have bl: "bitlen (nat \<bar>b\<bar>) \<le> 53" by (rule bitlen_le)
  have "(2::nat) ^ 53 < 2 ^ 1024" by simp
  with n have "\<not> (2::nat) ^ 1024 \<le> nat \<bar>b\<bar>" by linarith
  with bl show ?thesis by (simp add: ToNumber_def roundTiesToEven_def Let_def)
qed

lemma low32: "(x::int) AND 4294967295 = x mod 2 ^ 32"
proof -
  have "(4294967295::int) = mask 32" by (simp add: mask_eq_exp_minus_1)
  then have "x AND 4294967295 = take_bit 32 x" by (simp add: take_bit_eq_mask)
  then show ?thesis by (simp add: take_bit_eq_mod)
qed

lemma hashCode_low32: "hashCode kv = Numeric (Number (raw_value kv mod 2 ^ 32))"
proof -
  have "0 \<le> raw_value kv mod 2 ^ 32" "raw_value kv mod 2 ^ 32 < 2 ^ 32" by simp_all
  then have "\<bar>raw_value kv mod 2 ^ 32\<bar> < 2 ^ 53" by simp
  then have "ToNumber (raw_value kv mod 2 ^ 32) = Numeric (Number (raw_value kv mod 2 ^ 32))"
    by (rule ToNumber_exact)
  then show ?thesis by (simp add: hashCode_def low32)
qed

section \<open>Properties of KnownValue\<close>

text \<open>
  The constructor checks no sign: from the native integer \<open>-1\<close> it builds a value whose
  raw value is \<open>-1\<close>.
\<close>

theorem constructor_nonnegative_counterexample:
  "KnownValue_new (Numeric (Number (- 1))) None = Inr \<lparr>raw_value = - 1, assigned_name = None\<rparr>
   \<and> valueBigInt \<lparr>raw_value = - 1, assigned_name = None\<rparr> < 0"
  by (simp add: valueBigInt_def)

text \<open>
  Claim C3, as amended. The constructor converts its input and checks nothing else: it
  returns what \<^verbatim>\<open>BigInt(value)\<close> returns, under the name given. So from any integer
  \<open>n\<close>, negative or not, given as a native integer, as an arbitrary-precision integer,
  as its decimal string or as any string the host parses to it, it builds a value whose
  raw value is \<open>n\<close> in the arbitrary-precision representation, and the raw value is
  non-negative exactly when the input is.
\<close>

theorem constructor_normalizes:
  assumes "v = Numeric (Number n) \<or> v = Numeric (BigInt n) \<or> v = Str (toString n)
         \<or> (\<exists>s. v = Str s \<and> StringToBigInt s = Some n)"
  shows "KnownValue_new v nm = Inr \<lparr>raw_value = n, assigned_name = nm\<rparr>
         \<and> valueBigInt \<lparr>raw_value = n, assigned_name = nm\<rparr> = n
         \<and> (0 \<le> valueBigInt \<lparr>raw_value = n, assigned_name = nm\<rparr> \<longleftrightarrow> 0 \<le> n)
         \<and> KnownValue_new w nm =
             (case ToBigInt w of
                Inl e \<Rightarrow> Inl e
              | Inr b \<Rightarrow> Inr \<lparr>raw_value = b, assigned_name = nm\<rparr>)"
proof -
  have g: "KnownValue_new w nm =
      (case ToBigInt w of Inl e \<Rightarrow> Inl e | Inr b \<Rightarrow> Inr \<lparr>raw_value = b, assigned_name = nm\<rparr>)"
    by (cases "(w, nm)" rule: KnownValue_new.cases) simp_all
  from assms have "KnownValue_new v nm = Inr \<lparr>raw_value = n, assigned_name = nm\<rparr>"
    by (auto simp: StringToBigInt_toString)
  with g show ?thesis by (simp add: valueBigInt_def)
qed

theorem constructor_normalizes_witness:
  "toString 4 = ''4''
   \<and> KnownValue_new (Str ''4'') (Some ''note'') = Inr \<lparr>raw_value = 4, assigned_name = Some ''note''\<rparr>
   \<and> KnownValue_new (Numeric (Number 4)) (Some ''note'') = Inr \<lparr>raw_value = 4, assigned_name = Some ''note''\<rparr>
   \<and> KnownValue_new (Numeric (BigInt 4)) (Some ''note'') = Inr \<lparr>raw_value = 4, assigned_name = Some ''note''\<rparr>
   \<and> 0 \<le> valueBigInt \<lparr>raw_value = 4, assigned_name = Some ''note''\<rparr>
   \<and> toString (- 2) = ''-2''
   \<and> KnownValue_new (Str ''-2'') None = Inr \<lparr>raw_value = - 2, assigned_name = None\<rparr>
   \<and> KnownValue_new (Numeric (Number (- 2))) None = Inr \<lparr>raw_value = - 2, assigned_name = None\<rparr>
   \<and> \<not> 0 \<le> valueBigInt \<lparr>raw_value = - 2, assigned_name = None\<rparr>"
proof -
  have s: "toString 4 = ''4''" by (simp add: toString_def decimal_digits.simps digit_char_def)
  have t: "toString (- 2) = ''-2''" by (simp add: toString_def decimal_digits.simps digit_char_def)
  have "KnownValue_new (Str (toString 4)) (Some ''note'') = Inr \<lparr>raw_value = 4, assigned_name = Some ''note''\<rparr>"
    using constructor_normalizes [of "Str (toString 4)" 4 "Some ''note''"] by blast
  then have a: "KnownValue_new (Str ''4'') (Some ''note'') = Inr \<lparr>raw_value = 4, assigned_name = Some ''note''\<rparr>"
    by (simp only: s)
  have b: "KnownValue_new (Numeric (Number 4)) (Some ''note'') = Inr \<lparr>raw_value = 4, assigned_name = Some ''note''\<rparr>"
    using constructor_normalizes [of "Numeric (Number 4)" 4 "Some ''note''"] by blast
  have c: "KnownValue_new (Numeric (BigInt 4)) (Some ''note'') = Inr \<lparr>raw_value = 4, assigned_name = Some ''note''\<rparr>"
    and d: "0 \<le> valueBigInt \<lparr>raw_value = 4, assigned_name = Some ''note''\<rparr>"
    using constructor_normalizes [of "Numeric (BigInt 4)" 4 "Some ''note''"] by simp_all
  have "KnownValue_new (Str (toString (- 2))) None = Inr \<lparr>raw_value = - 2, assigned_name = None\<rparr>"
    using constructor_normalizes [of "Str (toString (- 2))" "- 2" None] by blast
  then have e: "KnownValue_new (Str ''-2'') None = Inr \<lparr>raw_value = - 2, assigned_name = None\<rparr>"
    by (simp only: t)
  have f: "KnownValue_new (Numeric (Number (- 2))) None = Inr \<lparr>raw_value = - 2, assigned_name = None\<rparr>"
    and g: "\<not> 0 \<le> valueBigInt \<lparr>raw_value = - 2, assigned_name = None\<rparr>"
    using constructor_normalizes [of "Numeric (Number (- 2))" "- 2" None] by simp_all
  from s t a b c d e f g show ?thesis by blast
qed

text \<open>
  The lower bound in the theorem that follows is sharp. A raw value of \<open>- (2 ^ 53) - 1\<close>,
  which the data model excludes and the constructor does not reject, is not exact as a
  number: \<^verbatim>\<open>value()\<close> returns the nearest double, \<open>- (2 ^ 53)\<close>.
\<close>

lemma value_of_rounds_below_exact_range:
  "KnownValue_new (Numeric (BigInt (- 9007199254740993))) None
     = Inr \<lparr>raw_value = - 9007199254740993, assigned_name = None\<rparr>
   \<and> value_of \<lparr>raw_value = - 9007199254740993, assigned_name = None\<rparr>
     = Inr (Numeric (Number (- 9007199254740992)))"
proof -
  have bl: "bitlen 9007199254740993 = 54" by (simp add: bitlen.simps)
  have r: "roundTiesToEven 9007199254740993 = 9007199254740992"
    by (simp add: roundTiesToEven_def bl Let_def)
  have "ToNumber (- 9007199254740993) = Numeric (Number (- 9007199254740992))"
    by (simp add: ToNumber_def r)
  then show ?thesis
    by (simp add: value_of_def MAX_SAFE_INTEGER_def)
qed

text \<open>
  Claim C7. For every \<^verbatim>\<open>KnownValue\<close> of the data model, whose raw value is not
  negative, \<^verbatim>\<open>value()\<close> raises a range error exactly when the raw value exceeds
  \<open>2 ^ 53 - 1\<close>, and otherwise returns the exact native integer. A value built from
  \<open>2 ^ 53\<close> raises the range error on \<^verbatim>\<open>value()\<close> while \<^verbatim>\<open>valueBigInt()\<close>
  returns \<open>2 ^ 53\<close>. The theorem says more: the range error is raised exactly above
  \<open>2 ^ 53 - 1\<close> whatever the sign, what is returned below is \<^verbatim>\<open>Number\<close> of the raw
  value, and that is exact for every raw value above \<open>- (2 ^ 53)\<close>.
\<close>

theorem value_range_error:
  "(value_of kv = Inl RangeError \<longleftrightarrow> valueBigInt kv > 2 ^ 53 - 1)
   \<and> (0 \<le> valueBigInt kv \<and> valueBigInt kv \<le> 2 ^ 53 - 1
        \<longrightarrow> value_of kv = Inr (Numeric (Number (valueBigInt kv))))
   \<and> (valueBigInt kv \<le> 2 ^ 53 - 1 \<longrightarrow> value_of kv = Inr (ToNumber (valueBigInt kv)))
   \<and> (- (2 ^ 53) < valueBigInt kv \<and> valueBigInt kv \<le> 2 ^ 53 - 1
        \<longrightarrow> value_of kv = Inr (Numeric (Number (valueBigInt kv))))
   \<and> KnownValue_new (Numeric (BigInt (2 ^ 53))) None = Inr \<lparr>raw_value = 2 ^ 53, assigned_name = None\<rparr>
   \<and> value_of \<lparr>raw_value = 2 ^ 53, assigned_name = None\<rparr> = Inl RangeError
   \<and> valueBigInt \<lparr>raw_value = 2 ^ 53, assigned_name = None\<rparr> = 2 ^ 53"
proof -
  have "- (2 ^ 53) < raw_value kv \<and> raw_value kv \<le> 2 ^ 53 - 1
      \<longrightarrow> ToNumber (raw_value kv) = Numeric (Number (raw_value kv))"
    by (auto intro: ToNumber_exact)
  then show ?thesis
    by (simp add: value_of_def valueBigInt_def MAX_SAFE_INTEGER_def)
qed

theorem value_range_error_witness:
  "0 \<le> valueBigInt \<lparr>raw_value = 2 ^ 53 - 1, assigned_name = None\<rparr>
   \<and> valueBigInt \<lparr>raw_value = 2 ^ 53 - 1, assigned_name = None\<rparr> \<le> 2 ^ 53 - 1
   \<and> value_of \<lparr>raw_value = 2 ^ 53 - 1, assigned_name = None\<rparr> = Inr (Numeric (Number (2 ^ 53 - 1)))
   \<and> value_of \<lparr>raw_value = 2 ^ 53 - 1, assigned_name = None\<rparr> \<noteq> Inl RangeError"
proof -
  let ?kv = "\<lparr>raw_value = 2 ^ 53 - 1, assigned_name = None\<rparr>"
  note t = value_range_error [of ?kv]
  have v: "valueBigInt ?kv = 2 ^ 53 - 1" by (simp add: valueBigInt_def)
  then have b: "0 \<le> valueBigInt ?kv \<and> valueBigInt ?kv \<le> 2 ^ 53 - 1" by simp
  with t have e: "value_of ?kv = Inr (Numeric (Number (valueBigInt ?kv)))" by blast
  from b have "\<not> valueBigInt ?kv > 2 ^ 53 - 1" by simp
  with t have n: "value_of ?kv \<noteq> Inl RangeError" by blast
  from v b e n show ?thesis by simp
qed

text \<open>
  \<^verbatim>\<open>UNIT\<close> carries the empty string as its assigned name, and \<^verbatim>\<open>name()\<close>
  returns that empty string, not the decimal string \<open>''0''\<close> of its raw value.
\<close>

theorem name_fallback_counterexample:
  "UNIT = Inr \<lparr>raw_value = 0, assigned_name = Some ''''\<rparr>
   \<and> assignedName \<lparr>raw_value = 0, assigned_name = Some ''''\<rparr> = Some ''''
   \<and> name \<lparr>raw_value = 0, assigned_name = Some ''''\<rparr> = ''''
   \<and> toString (valueBigInt \<lparr>raw_value = 0, assigned_name = Some ''''\<rparr>) = ''0''"
  by (simp add: UNIT_def name_def assignedName_def valueBigInt_def toString_def
      decimal_digits.simps digit_char_def)

text \<open>
  Claim C2, as amended. \<^verbatim>\<open>name()\<close> returns the assigned name whenever one is
  present, the empty string included, and the decimal string of the raw value only when
  no name was assigned; a value with no assigned name and raw value 42 has the name
  \<open>''42''\<close>.
\<close>

theorem name_fallback:
  "name kv = (case assignedName kv of Some n \<Rightarrow> n | None \<Rightarrow> toString (valueBigInt kv))
   \<and> KnownValue_new (Numeric (Number 42)) None = Inr \<lparr>raw_value = 42, assigned_name = None\<rparr>
   \<and> name \<lparr>raw_value = 42, assigned_name = None\<rparr> = ''42''"
  by (simp add: name_def assignedName_def valueBigInt_def toString_def decimal_digits.simps digit_char_def
      split: option.split)

text \<open>
  Claim C8. \<^verbatim>\<open>equals\<close> holds exactly when the two raw values are equal, whatever the
  assigned names: \<^verbatim>\<open>KnownValue(5, "a")\<close> equals \<^verbatim>\<open>KnownValue(5, "b")\<close>, and
  \<^verbatim>\<open>KnownValue(5)\<close> does not equal \<^verbatim>\<open>KnownValue(6)\<close>.
\<close>

theorem equals_iff_raw_value:
  "equals a b = (valueBigInt a = valueBigInt b)
   \<and> equals (a\<lparr>assigned_name := n\<rparr>) (b\<lparr>assigned_name := m\<rparr>) = equals a b
   \<and> KnownValue_new (Numeric (Number 5)) (Some ''a'') = Inr \<lparr>raw_value = 5, assigned_name = Some ''a''\<rparr>
   \<and> KnownValue_new (Numeric (Number 5)) (Some ''b'') = Inr \<lparr>raw_value = 5, assigned_name = Some ''b''\<rparr>
   \<and> equals \<lparr>raw_value = 5, assigned_name = Some ''a''\<rparr> \<lparr>raw_value = 5, assigned_name = Some ''b''\<rparr>
   \<and> KnownValue_new (Numeric (Number 5)) None = Inr \<lparr>raw_value = 5, assigned_name = None\<rparr>
   \<and> KnownValue_new (Numeric (Number 6)) None = Inr \<lparr>raw_value = 6, assigned_name = None\<rparr>
   \<and> \<not> equals \<lparr>raw_value = 5, assigned_name = None\<rparr> \<lparr>raw_value = 6, assigned_name = None\<rparr>"
  by (simp add: equals_def valueBigInt_def)

text \<open>
  Claim C10. Two values that are equal have the same hash code: the hash code is the
  number of the low 32 bits of the raw value, and the assigned name has no part in it.
\<close>

theorem equal_values_hash_equal:
  "(equals a b \<longrightarrow> hashCode a = hashCode b)
   \<and> hashCode a = Numeric (Number (valueBigInt a mod 2 ^ 32))
   \<and> hashCode (a\<lparr>assigned_name := n\<rparr>) = hashCode a"
  by (simp add: hashCode_low32 equals_def valueBigInt_def)

theorem equal_values_hash_equal_witness:
  "equals \<lparr>raw_value = 2 ^ 32 + 5, assigned_name = Some ''a''\<rparr> \<lparr>raw_value = 2 ^ 32 + 5, assigned_name = None\<rparr>
   \<and> hashCode \<lparr>raw_value = 2 ^ 32 + 5, assigned_name = Some ''a''\<rparr> = hashCode \<lparr>raw_value = 2 ^ 32 + 5, assigned_name = None\<rparr>
   \<and> hashCode \<lparr>raw_value = 2 ^ 32 + 5, assigned_name = Some ''a''\<rparr> = Numeric (Number 5)"
proof -
  let ?a = "\<lparr>raw_value = 2 ^ 32 + 5, assigned_name = Some ''a''\<rparr>"
  let ?b = "\<lparr>raw_value = 2 ^ 32 + 5, assigned_name = None\<rparr>"
  note t = equal_values_hash_equal [of ?a ?b]
  have e: "equals ?a ?b" by (simp add: equals_def)
  with t have h: "hashCode ?a = hashCode ?b" by blast
  from t have "hashCode ?a = Numeric (Number (valueBigInt ?a mod 2 ^ 32))" by blast
  then have "hashCode ?a = Numeric (Number 5)" by (simp add: valueBigInt_def)
  with e h show ?thesis by blast
qed

section \<open>Properties of the codec\<close>

lemma fromUntaggedCbor_succeeds_iff:
  "(\<exists>kv. fromUntaggedCbor c = Inr kv) \<longleftrightarrow> type c = Unsigned"
  by (cases c) (auto split: numeric.splits)

lemma fromUntaggedCbor_error: "type c \<noteq> Unsigned \<Longrightarrow> fromUntaggedCbor c = Inl Error"
  by (cases c) auto

lemma fromUntaggedCbor_Unsigned:
  "fromUntaggedCbor (CborUnsigned x) =
     Inr \<lparr>raw_value = (case x of Number n \<Rightarrow> n | BigInt n \<Rightarrow> n), assigned_name = None\<rparr>"
  by (cases x) auto

text \<open>
  Claim C6. \<^verbatim>\<open>fromTaggedCbor\<close> raises the decode error on every item that is not of
  the tagged major type, and on every tagged item whose tag is neither the native nor the
  arbitrary-precision form of the reserved tag, whatever the payload. On a tagged item
  whose tag is the reserved tag in either form it returns what \<^verbatim>\<open>fromUntaggedCbor\<close>
  returns on the payload, which succeeds exactly when the payload is an unsigned integer
  and raises the decode error otherwise.
\<close>

theorem fromTaggedCbor_checks:
  "(type c \<noteq> Tagged \<longrightarrow> fromTaggedCbor TAG c = Inl Error)
   \<and> (tag \<noteq> Number TAG \<and> tag \<noteq> BigInt TAG \<longrightarrow> fromTaggedCbor TAG (CborTagged tag inner) = Inl Error)
   \<and> (tag = Number TAG \<or> tag = BigInt TAG
        \<longrightarrow> fromTaggedCbor TAG (CborTagged tag inner) = fromUntaggedCbor inner)
   \<and> ((\<exists>kv. fromUntaggedCbor inner = Inr kv) \<longleftrightarrow> type inner = Unsigned)
   \<and> (type inner \<noteq> Unsigned \<longrightarrow> fromUntaggedCbor inner = Inl Error)"
proof -
  have "type c \<noteq> Tagged \<longrightarrow> fromTaggedCbor TAG c = Inl Error" by (cases c) auto
  then show ?thesis
    using fromUntaggedCbor_succeeds_iff [of inner] fromUntaggedCbor_error [of inner] by auto
qed

theorem fromTaggedCbor_checks_witness:
  "fromTaggedCbor 40000 (CborUnsigned (Number 7)) = Inl Error
   \<and> fromTaggedCbor 40000 (CborTagged (Number 40001) (CborUnsigned (Number 7))) = Inl Error
   \<and> fromTaggedCbor 40000 (CborTagged (BigInt 40000) (CborUnsigned (Number 7)))
       = Inr \<lparr>raw_value = 7, assigned_name = None\<rparr>
   \<and> fromTaggedCbor 40000 (CborTagged (Number 40000) (CborText ''seven'')) = Inl Error"
proof -
  note t = fromTaggedCbor_checks [of "CborUnsigned (Number 7)" 40000 "Number 40001" "CborUnsigned (Number 7)"]
  note u = fromTaggedCbor_checks [of "CborUnsigned (Number 7)" 40000 "BigInt 40000" "CborUnsigned (Number 7)"]
  note w = fromTaggedCbor_checks [of "CborUnsigned (Number 7)" 40000 "Number 40000" "CborText ''seven''"]
  have "type (CborUnsigned (Number 7)) \<noteq> Tagged" by simp
  with t have a: "fromTaggedCbor 40000 (CborUnsigned (Number 7)) = Inl Error" by blast
  have "Number 40001 \<noteq> Number 40000 \<and> Number 40001 \<noteq> BigInt 40000" by simp
  with t have b: "fromTaggedCbor 40000 (CborTagged (Number 40001) (CborUnsigned (Number 7))) = Inl Error"
    by blast
  from u have "fromTaggedCbor 40000 (CborTagged (BigInt 40000) (CborUnsigned (Number 7)))
      = fromUntaggedCbor (CborUnsigned (Number 7))" by blast
  then have c: "fromTaggedCbor 40000 (CborTagged (BigInt 40000) (CborUnsigned (Number 7)))
      = Inr \<lparr>raw_value = 7, assigned_name = None\<rparr>" by simp
  have "type (CborText ''seven'') \<noteq> Unsigned" by simp
  with w have "fromTaggedCbor 40000 (CborTagged (Number 40000) (CborText ''seven''))
      = fromUntaggedCbor (CborText ''seven'')" "fromUntaggedCbor (CborText ''seven'') = Inl Error"
    by blast+
  then have d: "fromTaggedCbor 40000 (CborTagged (Number 40000) (CborText ''seven'')) = Inl Error"
    by simp
  from a b c d show ?thesis by blast
qed

text \<open>
  Claim C1. For every non-negative integer \<open>v\<close>, with no upper bound,
  \<^verbatim>\<open>fromTaggedCbor\<close> applied to the tagged item of a value with raw value \<open>v\<close>
  returns a value whose \<^verbatim>\<open>valueBigInt()\<close> is \<open>v\<close>; so it does on the item as
  decoded again, in whichever representation the decoder returns the integers.
\<close>

theorem tagged_round_trip:
  assumes "0 \<le> v" and "valueBigInt kv = v"
  shows "fromTaggedCbor TAG (taggedCbor TAG kv) = Inr \<lparr>raw_value = v, assigned_name = None\<rparr>
         \<and> fromTaggedCbor TAG (redecode native (taggedCbor TAG kv))
             = Inr \<lparr>raw_value = v, assigned_name = None\<rparr>
         \<and> valueBigInt \<lparr>raw_value = v, assigned_name = None\<rparr> = v"
  using assms
  by (simp add: taggedCbor_def cbor_tagged_def cbor_bigint_def redecode_numeric_def valueBigInt_def)

theorem tagged_round_trip_witness:
  "KnownValue_new (Numeric (BigInt (2 ^ 64 + 1))) (Some ''big'')
     = Inr \<lparr>raw_value = 2 ^ 64 + 1, assigned_name = Some ''big''\<rparr>
   \<and> fromTaggedCbor 40000 (taggedCbor 40000 \<lparr>raw_value = 2 ^ 64 + 1, assigned_name = Some ''big''\<rparr>)
       = Inr \<lparr>raw_value = 2 ^ 64 + 1, assigned_name = None\<rparr>
   \<and> fromTaggedCbor 40000
        (redecode (\<lambda>n. n \<le> 2 ^ 53 - 1) (taggedCbor 40000 \<lparr>raw_value = 2 ^ 64 + 1, assigned_name = Some ''big''\<rparr>))
       = Inr \<lparr>raw_value = 2 ^ 64 + 1, assigned_name = None\<rparr>"
proof -
  let ?kv = "\<lparr>raw_value = 2 ^ 64 + 1, assigned_name = Some ''big''\<rparr>"
  have z: "(0::int) \<le> 2 ^ 64 + 1" by simp
  have v: "valueBigInt ?kv = 2 ^ 64 + 1" by (simp add: valueBigInt_def)
  from tagged_round_trip [OF z v, of 40000 "\<lambda>n. n \<le> 2 ^ 53 - 1"] show ?thesis by simp
qed

section \<open>Properties of KnownValuesStore\<close>

lemma insert_internal_length [simp]: "length (insert_internal s kv h) = length h"
  by (simp add: insert_internal_def Map_set_def Map_delete_def Let_def split: option.split)

lemma insert_internal_store_ok [simp]: "store_ok t (insert_internal s kv h) = store_ok t h"
  by (simp add: store_ok_def)

lemma insert_internal_byValue:
  "store_ok s h \<Longrightarrow>
   insert_internal s kv h ! knownValuesByRawValue s
     = (h ! knownValuesByRawValue s)(BigKey (raw_value kv) \<mapsto> kv)"
  by (simp add: insert_internal_def store_ok_def Map_set_def Map_delete_def Map_get_def Let_def
      valueBigInt_def assignedName_def split: option.split)

lemma insert_internal_byName:
  "store_ok s h \<Longrightarrow>
   insert_internal s kv h ! knownValuesByAssignedName s
     = names_after_insert (h ! knownValuesByRawValue s) (h ! knownValuesByAssignedName s) kv"
  by (simp add: insert_internal_def store_ok_def Map_set_def Map_delete_def Map_get_def Let_def
      valueBigInt_def assignedName_def names_after_insert_def names_after_removal_def
      split: option.split)

lemma insert_internal_frame:
  "r \<noteq> knownValuesByRawValue s \<Longrightarrow> r \<noteq> knownValuesByAssignedName s \<Longrightarrow>
   insert_internal s kv h ! r = h ! r"
  by (simp add: insert_internal_def Map_set_def Map_delete_def Let_def split: option.split)

lemma knownValueNamed_insert:
  "store_ok s h \<Longrightarrow>
   knownValueNamed s n (insert_store s kv h)
     = names_after_insert (h ! knownValuesByRawValue s) (h ! knownValuesByAssignedName s) kv (StrKey n)"
  by (simp add: knownValueNamed_def insert_store_def Map_get_def insert_internal_byName)

lemma byValue_insert:
  "store_ok s h \<Longrightarrow>
   Map_get (knownValuesByRawValue s) (BigKey b) (insert_store s kv h)
     = (if b = raw_value kv then Some kv else Map_get (knownValuesByRawValue s) (BigKey b) h)"
  by (simp add: insert_store_def Map_get_def insert_internal_byValue)

lemma insert_store_ok [simp]: "store_ok t (insert_store s kv h) = store_ok t h"
  by (simp add: insert_store_def)

text \<open>
  Claim C4. In every store, after \<^verbatim>\<open>insert(KnownValue(4, "note"))\<close> and then
  \<^verbatim>\<open>insert(KnownValue(4, "memo"))\<close>, the name \<open>''note''\<close> resolves to nothing, the
  name \<open>''memo''\<close> resolves to the inserted value, and the value found for 4 has the
  assigned name \<open>''memo''\<close>. In general, when \<^verbatim>\<open>insert\<close> replaces an entry whose name
  is a non-empty string, the value map holds the new value, and the name map is the old
  one with the old name removed first and the new name, when it is a non-empty string,
  installed after.
\<close>

theorem insert_rename_on_collision:
  assumes ok: "store_ok s h"
  shows "KnownValue_new (Numeric (Number 4)) (Some ''note'') = Inr \<lparr>raw_value = 4, assigned_name = Some ''note''\<rparr>
    \<and> KnownValue_new (Numeric (Number 4)) (Some ''memo'') = Inr \<lparr>raw_value = 4, assigned_name = Some ''memo''\<rparr>
    \<and> knownValueNamed s ''note''
          (insert_store s \<lparr>raw_value = 4, assigned_name = Some ''memo''\<rparr>
            (insert_store s \<lparr>raw_value = 4, assigned_name = Some ''note''\<rparr> h)) = None
    \<and> knownValueNamed s ''memo''
          (insert_store s \<lparr>raw_value = 4, assigned_name = Some ''memo''\<rparr>
            (insert_store s \<lparr>raw_value = 4, assigned_name = Some ''note''\<rparr> h))
        = Some \<lparr>raw_value = 4, assigned_name = Some ''memo''\<rparr>
    \<and> knownValueForValue s (Numeric (Number 4))
          (insert_store s \<lparr>raw_value = 4, assigned_name = Some ''memo''\<rparr>
            (insert_store s \<lparr>raw_value = 4, assigned_name = Some ''note''\<rparr> h))
        = Inr (Some \<lparr>raw_value = 4, assigned_name = Some ''memo''\<rparr>)
    \<and> assignedName \<lparr>raw_value = 4, assigned_name = Some ''memo''\<rparr> = Some ''memo''
    \<and> (knownValueForValue s (Numeric (BigInt (valueBigInt kv))) h = Inr (Some old)
        \<and> assignedName old = Some oldName \<and> oldName \<noteq> []
        \<longrightarrow> knownValueForValue s (Numeric (BigInt (valueBigInt kv))) (insert_store s kv h) = Inr (Some kv)
          \<and> (\<forall>n. knownValueNamed s n (insert_store s kv h)
                = (if assignedName kv = Some n \<and> n \<noteq> [] then Some kv
                   else if n = oldName then None
                   else knownValueNamed s n h)))"
proof -
  let ?note = "\<lparr>raw_value = 4, assigned_name = Some ''note''\<rparr>"
  let ?memo = "\<lparr>raw_value = 4, assigned_name = Some ''memo''\<rparr>"
  let ?h1 = "insert_store s ?note h"
  let ?h2 = "insert_store s ?memo ?h1"
  from ok have ok1: "store_ok s ?h1" by simp
  have v1: "?h1 ! knownValuesByRawValue s = (h ! knownValuesByRawValue s)(BigKey 4 \<mapsto> ?note)"
    using ok by (simp add: insert_store_def insert_internal_byValue)
  have n2: "\<And>n. knownValueNamed s n ?h2
      = (((?h1 ! knownValuesByAssignedName s)(StrKey ''note'' := None))(StrKey ''memo'' \<mapsto> ?memo)) (StrKey n)"
    by (simp add: knownValueNamed_insert [OF ok1] v1 names_after_insert_def names_after_removal_def)
  have a: "knownValueNamed s ''note'' ?h2 = None" by (simp add: n2)
  have b: "knownValueNamed s ''memo'' ?h2 = Some ?memo" by (simp add: n2)
  have c: "knownValueForValue s (Numeric (Number 4)) ?h2 = Inr (Some ?memo)"
    by (simp add: byValue_insert [OF ok1])
  have d: "knownValueForValue s (Numeric (BigInt (valueBigInt kv))) h = Inr (Some old)
        \<and> assignedName old = Some oldName \<and> oldName \<noteq> []
        \<longrightarrow> knownValueForValue s (Numeric (BigInt (valueBigInt kv))) (insert_store s kv h) = Inr (Some kv)
          \<and> (\<forall>n. knownValueNamed s n (insert_store s kv h)
                = (if assignedName kv = Some n \<and> n \<noteq> [] then Some kv
                   else if n = oldName then None
                   else knownValueNamed s n h))"
  proof (intro impI conjI allI)
    assume p: "knownValueForValue s (Numeric (BigInt (valueBigInt kv))) h = Inr (Some old)
        \<and> assignedName old = Some oldName \<and> oldName \<noteq> []"
    then have e: "(h ! knownValuesByRawValue s) (BigKey (raw_value kv)) = Some old"
      and o: "assigned_name old = Some oldName" "oldName \<noteq> []"
      by (simp_all add: Map_get_def valueBigInt_def assignedName_def)
    show "knownValueForValue s (Numeric (BigInt (valueBigInt kv))) (insert_store s kv h) = Inr (Some kv)"
      by (simp add: byValue_insert [OF ok] valueBigInt_def)
    fix n
    have r: "names_after_removal (h ! knownValuesByRawValue s) (h ! knownValuesByAssignedName s)
        (raw_value kv) = (h ! knownValuesByAssignedName s)(StrKey oldName := None)"
      using e o by (simp add: names_after_removal_def)
    show "knownValueNamed s n (insert_store s kv h)
        = (if assignedName kv = Some n \<and> n \<noteq> [] then Some kv
           else if n = oldName then None
           else knownValueNamed s n h)"
      unfolding knownValueNamed_insert [OF ok] names_after_insert_def r
      by (auto simp: knownValueNamed_def Map_get_def assignedName_def Let_def split: option.splits)
  qed
  from a b c d show ?thesis by (simp add: assignedName_def)
qed

theorem insert_rename_on_collision_witness:
  "store_ok \<lparr>knownValuesByRawValue = 0, knownValuesByAssignedName = 1\<rparr>
     [[BigKey 4 \<mapsto> \<lparr>raw_value = 4, assigned_name = Some ''note''\<rparr>],
      [StrKey ''note'' \<mapsto> \<lparr>raw_value = 4, assigned_name = Some ''note''\<rparr>]]
   \<and> knownValueForValue \<lparr>knownValuesByRawValue = 0, knownValuesByAssignedName = 1\<rparr>
       (Numeric (BigInt (valueBigInt \<lparr>raw_value = 4, assigned_name = Some ''memo''\<rparr>)))
       [[BigKey 4 \<mapsto> \<lparr>raw_value = 4, assigned_name = Some ''note''\<rparr>],
        [StrKey ''note'' \<mapsto> \<lparr>raw_value = 4, assigned_name = Some ''note''\<rparr>]]
       = Inr (Some \<lparr>raw_value = 4, assigned_name = Some ''note''\<rparr>)
   \<and> assignedName \<lparr>raw_value = 4, assigned_name = Some ''note''\<rparr> = Some ''note''
   \<and> knownValueNamed \<lparr>knownValuesByRawValue = 0, knownValuesByAssignedName = 1\<rparr> ''note''
       (insert_store \<lparr>knownValuesByRawValue = 0, knownValuesByAssignedName = 1\<rparr>
          \<lparr>raw_value = 4, assigned_name = Some ''memo''\<rparr>
          [[BigKey 4 \<mapsto> \<lparr>raw_value = 4, assigned_name = Some ''note''\<rparr>],
           [StrKey ''note'' \<mapsto> \<lparr>raw_value = 4, assigned_name = Some ''note''\<rparr>]]) = None
   \<and> knownValueNamed \<lparr>knownValuesByRawValue = 0, knownValuesByAssignedName = 1\<rparr> ''memo''
       (insert_store \<lparr>knownValuesByRawValue = 0, knownValuesByAssignedName = 1\<rparr>
          \<lparr>raw_value = 4, assigned_name = Some ''memo''\<rparr>
          [[BigKey 4 \<mapsto> \<lparr>raw_value = 4, assigned_name = Some ''note''\<rparr>],
           [StrKey ''note'' \<mapsto> \<lparr>raw_value = 4, assigned_name = Some ''note''\<rparr>]])
       = Some \<lparr>raw_value = 4, assigned_name = Some ''memo''\<rparr>"
proof -
  let ?s = "\<lparr>knownValuesByRawValue = 0, knownValuesByAssignedName = 1\<rparr>"
  let ?note = "\<lparr>raw_value = 4, assigned_name = Some ''note''\<rparr>"
  let ?memo = "\<lparr>raw_value = 4, assigned_name = Some ''memo''\<rparr>"
  let ?h = "[[BigKey 4 \<mapsto> ?note], [StrKey ''note'' \<mapsto> ?note]]"
  have ok: "store_ok ?s ?h" by (simp add: store_ok_def)
  have p: "knownValueForValue ?s (Numeric (BigInt (valueBigInt ?memo))) ?h = Inr (Some ?note)"
    by (simp add: Map_get_def valueBigInt_def)
  have q: "assignedName ?note = Some ''note''" "''note'' \<noteq> []" by (simp_all add: assignedName_def)
  have m: "assignedName ?memo = Some ''memo''" "''memo'' \<noteq> ''note''" "''memo'' \<noteq> []"
    by (simp_all add: assignedName_def)
  from insert_rename_on_collision [OF ok, of ?memo ?note "''note''"] p q
  have g: "\<forall>n. knownValueNamed ?s n (insert_store ?s ?memo ?h)
      = (if assignedName ?memo = Some n \<and> n \<noteq> [] then Some ?memo
         else if n = ''note'' then None else knownValueNamed ?s n ?h)"
    by blast
  from g have a: "knownValueNamed ?s ''note'' (insert_store ?s ?memo ?h) = None"
    using m by simp
  from g have b: "knownValueNamed ?s ''memo'' (insert_store ?s ?memo ?h) = Some ?memo"
    using m by simp
  from ok p q a b show ?thesis by blast
qed

lemma store_inv_insert_internal:
  assumes ok: "store_ok s h" and inv: "store_inv s h"
  shows "store_inv s (insert_internal s kv h)"
  unfolding store_inv_def knownValueNamed_def Map_get_def
proof (intro allI impI)
  fix n k
  let ?bv = "h ! knownValuesByRawValue s" and ?bn = "h ! knownValuesByAssignedName s"
  assume "(insert_internal s kv h ! knownValuesByAssignedName s) (StrKey n) = Some k"
  then have e: "names_after_insert ?bv ?bn kv (StrKey n) = Some k"
    by (simp add: insert_internal_byName [OF ok])
  have old: "\<And>n k. ?bn (StrKey n) = Some k \<Longrightarrow>
      assigned_name k = Some n \<and> n \<noteq> [] \<and> ?bv (BigKey (raw_value k)) = Some k"
    using inv by (simp add: store_inv_def knownValueNamed_def Map_get_def assignedName_def valueBigInt_def)
  show "assignedName k = Some n \<and> n \<noteq> [] \<and>
      (insert_internal s kv h ! knownValuesByRawValue s) (BigKey (valueBigInt k)) = Some k"
  proof (cases "assigned_name kv = Some n \<and> n \<noteq> []")
    case True
    with e have "k = kv" by (simp add: names_after_insert_def Let_def)
    with True show ?thesis
      by (simp add: insert_internal_byValue [OF ok] assignedName_def valueBigInt_def)
  next
    case False
    with e have r: "names_after_removal ?bv ?bn (raw_value kv) (StrKey n) = Some k"
      by (auto simp: names_after_insert_def Let_def split: option.splits if_splits)
    then have m: "?bn (StrKey n) = Some k"
      by (auto simp: names_after_removal_def split: option.splits if_splits)
    note o = old [OF m]
    have "raw_value k \<noteq> raw_value kv"
    proof
      assume eq: "raw_value k = raw_value kv"
      with o have "?bv (BigKey (raw_value kv)) = Some k" by simp
      with o have "names_after_removal ?bv ?bn (raw_value kv) (StrKey n) = None"
        by (simp add: names_after_removal_def)
      with r show False by simp
    qed
    with o show ?thesis
      by (simp add: insert_internal_byValue [OF ok] assignedName_def valueBigInt_def)
  qed
qed

lemma foldl_insert_internal_inv:
  "store_ok s h \<Longrightarrow> store_inv s h \<Longrightarrow>
   store_ok s (foldl (\<lambda>h' kv. insert_internal s kv h') h kvs)
   \<and> store_inv s (foldl (\<lambda>h' kv. insert_internal s kv h') h kvs)"
  by (induction kvs arbitrary: h) (simp_all add: store_inv_insert_internal)

lemma new_store_fresh:
  "store_ok \<lparr>knownValuesByRawValue = length h, knownValuesByAssignedName = Suc (length h)\<rparr>
     (h @ [Map.empty, Map.empty])
   \<and> store_inv \<lparr>knownValuesByRawValue = length h, knownValuesByAssignedName = Suc (length h)\<rparr>
     (h @ [Map.empty, Map.empty])"
  by (simp add: store_ok_def store_inv_def knownValueNamed_def Map_get_def nth_append)

lemma KnownValuesStore_new_eq:
  "KnownValuesStore_new seed h =
     (\<lparr>knownValuesByRawValue = length h, knownValuesByAssignedName = Suc (length h)\<rparr>,
      foldl (\<lambda>h' kv. insert_internal
          \<lparr>knownValuesByRawValue = length h, knownValuesByAssignedName = Suc (length h)\<rparr> kv h')
        (h @ [Map.empty, Map.empty]) seed)"
  by (simp add: KnownValuesStore_new_def Map_new_def Let_def)

lemma KnownValuesStore_new_inv:
  "store_ok (fst (KnownValuesStore_new seed h)) (snd (KnownValuesStore_new seed h))
   \<and> store_inv (fst (KnownValuesStore_new seed h)) (snd (KnownValuesStore_new seed h))"
  using new_store_fresh [of h]
  by (simp add: KnownValuesStore_new_eq foldl_insert_internal_inv)

text \<open>
  Claim C5. A store built by the constructor, empty or from a list of seeds, and then
  changed by any sequence of \<^verbatim>\<open>insert\<close> calls, satisfies the invariant: every entry
  \<open>(name, kv)\<close> of the name map has \<open>assignedName kv = name\<close>, and the value map holds
  \<open>kv\<close> under the raw value of \<open>kv\<close>.
\<close>

theorem byName_invariant:
  "store_inv (fst (KnownValuesStore_new seed h))
     (insert_all (fst (KnownValuesStore_new seed h)) kvs (snd (KnownValuesStore_new seed h)))"
  using KnownValuesStore_new_inv [of seed h]
  by (simp add: insert_all_def insert_store_def [abs_def] foldl_insert_internal_inv)

theorem byName_invariant_witness:
  "knownValueNamed (fst (KnownValuesStore_new [\<lparr>raw_value = 4, assigned_name = Some ''note''\<rparr>] [])) ''memo''
     (insert_all (fst (KnownValuesStore_new [\<lparr>raw_value = 4, assigned_name = Some ''note''\<rparr>] []))
        [\<lparr>raw_value = 4, assigned_name = Some ''memo''\<rparr>]
        (snd (KnownValuesStore_new [\<lparr>raw_value = 4, assigned_name = Some ''note''\<rparr>] [])))
     = Some \<lparr>raw_value = 4, assigned_name = Some ''memo''\<rparr>
   \<and> Map_get (knownValuesByRawValue (fst (KnownValuesStore_new [\<lparr>raw_value = 4, assigned_name = Some ''note''\<rparr>] [])))
       (BigKey (valueBigInt \<lparr>raw_value = 4, assigned_name = Some ''memo''\<rparr>))
       (insert_all (fst (KnownValuesStore_new [\<lparr>raw_value = 4, assigned_name = Some ''note''\<rparr>] []))
        [\<lparr>raw_value = 4, assigned_name = Some ''memo''\<rparr>]
        (snd (KnownValuesStore_new [\<lparr>raw_value = 4, assigned_name = Some ''note''\<rparr>] [])))
     = Some \<lparr>raw_value = 4, assigned_name = Some ''memo''\<rparr>"
proof -
  let ?note = "\<lparr>raw_value = 4, assigned_name = Some ''note''\<rparr>"
  let ?memo = "\<lparr>raw_value = 4, assigned_name = Some ''memo''\<rparr>"
  let ?s = "fst (KnownValuesStore_new [?note] [])"
  let ?hf = "insert_all ?s [?memo] (snd (KnownValuesStore_new [?note] []))"
  have k: "knownValueNamed ?s ''memo'' ?hf = Some ?memo"
    by (simp add: KnownValuesStore_new_def Map_new_def insert_all_def insert_store_def
        insert_internal_def Map_get_def Map_set_def Map_delete_def knownValueNamed_def
        valueBigInt_def assignedName_def Let_def)
  from byName_invariant [of "[?note]" "[]" "[?memo]"] k
  have "Map_get (knownValuesByRawValue ?s) (BigKey (valueBigInt ?memo)) ?hf = Some ?memo"
    unfolding store_inv_def by blast
  with k show ?thesis by blast
qed

lemma insert_all_frame:
  "disjoint_stores s t \<Longrightarrow>
   insert_all t kvs h ! knownValuesByRawValue s = h ! knownValuesByRawValue s
   \<and> insert_all t kvs h ! knownValuesByAssignedName s = h ! knownValuesByAssignedName s"
  unfolding insert_all_def
proof (induction kvs arbitrary: h)
  case Nil
  show ?case by simp
next
  case (Cons kv kvs)
  from Cons.prems have
    "insert_store t kv h ! knownValuesByRawValue s = h ! knownValuesByRawValue s"
    "insert_store t kv h ! knownValuesByAssignedName s = h ! knownValuesByAssignedName s"
    by (simp_all add: insert_store_def disjoint_stores_def insert_internal_frame)
  with Cons.IH [OF Cons.prems, of "insert_store t kv h"] show ?case by simp
qed

lemma clone_eq:
  assumes "store_ok s h"
  shows "clone s h =
     (\<lparr>knownValuesByRawValue = length h + 2, knownValuesByAssignedName = length h + 3\<rparr>,
      h @ [Map.empty, Map.empty, h ! knownValuesByRawValue s, h ! knownValuesByAssignedName s])"
  using assms
  by (simp add: clone_def KnownValuesStore_new_def Map_new_def Let_def store_ok_def nth_append)

lemma clone_disjoint:
  assumes "store_ok s h" and "clone s h = (c, h')"
  shows "disjoint_stores s c \<and> disjoint_stores c s \<and> store_ok s h' \<and> store_ok c h'
     \<and> h' ! knownValuesByRawValue s = h ! knownValuesByRawValue s
     \<and> h' ! knownValuesByAssignedName s = h ! knownValuesByAssignedName s
     \<and> h' ! knownValuesByRawValue c = h ! knownValuesByRawValue s
     \<and> h' ! knownValuesByAssignedName c = h ! knownValuesByAssignedName s"
  using assms unfolding clone_eq [OF assms(1)]
  by (auto simp: disjoint_stores_def store_ok_def nth_append)

lemma knownValueForValue_cong:
  "h ! knownValuesByRawValue s = h' ! knownValuesByRawValue t \<Longrightarrow>
   knownValueForValue s r h = knownValueForValue t r h'"
  by (cases "(s, r, h)" rule: knownValueForValue.cases) (simp_all add: Map_get_def split: sum.splits)

lemma knownValueNamed_cong:
  "h ! knownValuesByAssignedName s = h' ! knownValuesByAssignedName t \<Longrightarrow>
   knownValueNamed s n h = knownValueNamed t n h'"
  by (simp add: knownValueNamed_def Map_get_def)

text \<open>
  Claim C9. After \<open>c = s.clone()\<close>, whatever is inserted into the clone, the original
  answers \<^verbatim>\<open>knownValueForValue\<close> and \<^verbatim>\<open>knownValueNamed\<close> as before; whatever is
  inserted into the original, the clone answers as it did when it was made; and when it
  was made it answered as the original: the clone holds copies of both maps.
\<close>

theorem clone_independence:
  assumes ok: "store_ok s h" and cl: "clone s h = (c, h')"
  shows "knownValueForValue s r (insert_all c kvs h') = knownValueForValue s r h
    \<and> knownValueNamed s n (insert_all c kvs h') = knownValueNamed s n h
    \<and> knownValueForValue c r (insert_all s kvs h') = knownValueForValue c r h'
    \<and> knownValueNamed c n (insert_all s kvs h') = knownValueNamed c n h'
    \<and> knownValueForValue c r h' = knownValueForValue s r h
    \<and> knownValueNamed c n h' = knownValueNamed s n h"
proof -
  note d = clone_disjoint [OF ok cl]
  from d have sc: "disjoint_stores s c" and cs: "disjoint_stores c s" by simp_all
  note f1 = insert_all_frame [OF sc, of kvs h']
  note f2 = insert_all_frame [OF cs, of kvs h']
  have a: "knownValueForValue s r (insert_all c kvs h') = knownValueForValue s r h"
    by (rule knownValueForValue_cong) (simp add: f1 d)
  have b: "knownValueNamed s n (insert_all c kvs h') = knownValueNamed s n h"
    by (rule knownValueNamed_cong) (simp add: f1 d)
  have c: "knownValueForValue c r (insert_all s kvs h') = knownValueForValue c r h'"
    by (rule knownValueForValue_cong) (simp add: f2 d)
  have e: "knownValueNamed c n (insert_all s kvs h') = knownValueNamed c n h'"
    by (rule knownValueNamed_cong) (simp add: f2 d)
  have f: "knownValueForValue c r h' = knownValueForValue s r h"
    by (rule knownValueForValue_cong) (simp add: d)
  have g: "knownValueNamed c n h' = knownValueNamed s n h"
    by (rule knownValueNamed_cong) (simp add: d)
  from a b c e f g show ?thesis by blast
qed

theorem clone_independence_witness:
  "store_ok \<lparr>knownValuesByRawValue = 0, knownValuesByAssignedName = 1\<rparr>
     [[BigKey 4 \<mapsto> \<lparr>raw_value = 4, assigned_name = Some ''note''\<rparr>],
      [StrKey ''note'' \<mapsto> \<lparr>raw_value = 4, assigned_name = Some ''note''\<rparr>]]
   \<and> clone \<lparr>knownValuesByRawValue = 0, knownValuesByAssignedName = 1\<rparr>
       [[BigKey 4 \<mapsto> \<lparr>raw_value = 4, assigned_name = Some ''note''\<rparr>],
        [StrKey ''note'' \<mapsto> \<lparr>raw_value = 4, assigned_name = Some ''note''\<rparr>]]
     = (\<lparr>knownValuesByRawValue = 4, knownValuesByAssignedName = 5\<rparr>,
        [[BigKey 4 \<mapsto> \<lparr>raw_value = 4, assigned_name = Some ''note''\<rparr>],
         [StrKey ''note'' \<mapsto> \<lparr>raw_value = 4, assigned_name = Some ''note''\<rparr>],
         Map.empty, Map.empty,
         [BigKey 4 \<mapsto> \<lparr>raw_value = 4, assigned_name = Some ''note''\<rparr>],
         [StrKey ''note'' \<mapsto> \<lparr>raw_value = 4, assigned_name = Some ''note''\<rparr>]])
   \<and> knownValueForValue \<lparr>knownValuesByRawValue = 0, knownValuesByAssignedName = 1\<rparr> (Numeric (Number 4))
       (insert_all \<lparr>knownValuesByRawValue = 4, knownValuesByAssignedName = 5\<rparr>
          [\<lparr>raw_value = 4, assigned_name = Some ''memo''\<rparr>]
          [[BigKey 4 \<mapsto> \<lparr>raw_value = 4, assigned_name = Some ''note''\<rparr>],
           [StrKey ''note'' \<mapsto> \<lparr>raw_value = 4, assigned_name = Some ''note''\<rparr>],
           Map.empty, Map.empty,
           [BigKey 4 \<mapsto> \<lparr>raw_value = 4, assigned_name = Some ''note''\<rparr>],
           [StrKey ''note'' \<mapsto> \<lparr>raw_value = 4, assigned_name = Some ''note''\<rparr>]])
     = Inr (Some \<lparr>raw_value = 4, assigned_name = Some ''note''\<rparr>)
   \<and> knownValueForValue \<lparr>knownValuesByRawValue = 4, knownValuesByAssignedName = 5\<rparr> (Numeric (Number 4))
       (insert_all \<lparr>knownValuesByRawValue = 0, knownValuesByAssignedName = 1\<rparr>
          [\<lparr>raw_value = 4, assigned_name = Some ''memo''\<rparr>]
          [[BigKey 4 \<mapsto> \<lparr>raw_value = 4, assigned_name = Some ''note''\<rparr>],
           [StrKey ''note'' \<mapsto> \<lparr>raw_value = 4, assigned_name = Some ''note''\<rparr>],
           Map.empty, Map.empty,
           [BigKey 4 \<mapsto> \<lparr>raw_value = 4, assigned_name = Some ''note''\<rparr>],
           [StrKey ''note'' \<mapsto> \<lparr>raw_value = 4, assigned_name = Some ''note''\<rparr>]])
     = Inr (Some \<lparr>raw_value = 4, assigned_name = Some ''note''\<rparr>)"
proof -
  let ?s = "\<lparr>knownValuesByRawValue = 0, knownValuesByAssignedName = 1\<rparr>"
  let ?c = "\<lparr>knownValuesByRawValue = 4, knownValuesByAssignedName = 5\<rparr>"
  let ?note = "\<lparr>raw_value = 4, assigned_name = Some ''note''\<rparr>"
  let ?memo = "\<lparr>raw_value = 4, assigned_name = Some ''memo''\<rparr>"
  let ?h = "[[BigKey 4 \<mapsto> ?note], [StrKey ''note'' \<mapsto> ?note]]"
  let ?h' = "[[BigKey 4 \<mapsto> ?note], [StrKey ''note'' \<mapsto> ?note], Map.empty, Map.empty,
    [BigKey 4 \<mapsto> ?note], [StrKey ''note'' \<mapsto> ?note]]"
  have ok: "store_ok ?s ?h" by (simp add: store_ok_def)
  have cl: "clone ?s ?h = (?c, ?h')"
    by (simp add: clone_def KnownValuesStore_new_def Map_new_def Let_def)
  have v: "knownValueForValue ?s (Numeric (Number 4)) ?h = Inr (Some ?note)"
    by (simp add: Map_get_def)
  note t = clone_independence [OF ok cl, of "Numeric (Number 4)" "[?memo]"]
  from t v have a: "knownValueForValue ?s (Numeric (Number 4)) (insert_all ?c [?memo] ?h') = Inr (Some ?note)"
    by simp
  from t v have b: "knownValueForValue ?c (Numeric (Number 4)) (insert_all ?s [?memo] ?h') = Inr (Some ?note)"
    by simp
  from ok cl a b show ?thesis by blast
qed

end
